theory Spec2Isabelle
  imports Complex_Main
begin

section \<open>The Tradier API base client (lumiwealth\_tradier/base.py)\<close>

text \<open>
  A shallow embedding of \<^verbatim>\<open>TradierApiBase\<close>: the constructor, \<^verbatim>\<open>base_url\<close>,
  \<^verbatim>\<open>date2str\<close>, \<^verbatim>\<open>request\<close> with its retry loop, and the two thin wrappers
  \<^verbatim>\<open>delete\<close> and \<^verbatim>\<open>send\<close>. The \<^verbatim>\<open>requests\<close> library is the transport boundary:
  it is a parameter of the model, a function from the request and the state of the outside
  world to an outcome and the next state of the world. Everything the method does besides
  returning (transport calls, warnings, sleeps) is recorded, in order, in a trace.
\<close>

subsection \<open>Values\<close>

text \<open>
  What \<^verbatim>\<open>r.json()\<close> can return: the Python image of a JSON document. A \<^verbatim>\<open>dict\<close> is an
  association list with string keys.
\<close>

datatype json =
    JNull
  | JBool bool
  | JInt int
  | JFloat rat
  | JStr string
  | JList "json list"
  | JDict "(string \<times> json) list"

text \<open>
  The response object of the transport: \<^verbatim>\<open>status_code\<close>, \<^verbatim>\<open>text\<close> (the field
  \<open>text_str\<close> here) and the result of \<^verbatim>\<open>json()\<close>, where \<open>None\<close> stands for
  \<^verbatim>\<open>json.decoder.JSONDecodeError\<close>.
\<close>

record response =
  status_code :: int
  text_str :: string
  json :: "json option"

type_synonym dict = "(string \<times> string) list"

datatype verb = GET | POST | DELETE

text \<open>
  One call of \<^verbatim>\<open>requests.get\<close>, \<^verbatim>\<open>requests.post\<close> or \<^verbatim>\<open>requests.delete\<close> with
  its keyword arguments. \<^verbatim>\<open>requests.get\<close> is called without \<^verbatim>\<open>data\<close>; \<^verbatim>\<open>headers\<close> is
  \<open>None\<close> when the caller passed none.
\<close>

record http_request =
  verb :: verb
  url :: string
  req_params :: dict
  req_headers :: "dict option"
  req_data :: "dict option"

text \<open>
  A transport call returns a response, raises a \<^verbatim>\<open>requests.exceptions.RequestException\<close>,
  or raises something else, which the \<^verbatim>\<open>except\<close> clause does not catch.
\<close>

datatype outcome =
    Response response
  | RequestException string
  | OtherException string

type_synonym 'w transport = "http_request \<Rightarrow> 'w \<Rightarrow> outcome \<times> 'w"

text \<open>
  The texts of the exceptions and warnings are f-strings; each is represented by its
  format and the values it interpolates:
  \<^item> \<open>Invalid_method method\<close>: \<^verbatim>\<open>Invalid method {method}. Must be one of [...]\<close>
  \<^item> \<open>Request_failed method max_retries\<close>:
    \<^verbatim>\<open>Error: {method} request failed after {max_retries} attempts.\<close>
  \<^item> \<open>Bad_status status_code text\<close>: \<^verbatim>\<open>Error: {r.status_code} - {r.text}\<close>
  \<^item> \<open>Api_error msg\<close>: \<^verbatim>\<open>Error: {msg}\<close>
\<close>

datatype message =
    Invalid_method string
  | Request_failed string int
  | Bad_status int string
  | Api_error json

datatype error =
    ValueError message
  | TradierApiError message
  | UnboundLocalError string
  | TypeError
  | KeyError string
  | OverflowError
  | Uncaught string

datatype warning =
    Request_warning string string
  | Retry_warning string rat

datatype event =
    Call http_request
  | Warn warning
  | Sleep rat

record 'w env =
  world :: 'w
  trace :: "event list"

definition warn :: "warning \<Rightarrow> 'w env \<Rightarrow> 'w env" where
  "warn w e = e\<lparr>trace := trace e @ [Warn w]\<rparr>"

definition sleep :: "rat \<Rightarrow> 'w env \<Rightarrow> 'w env" where
  "sleep secs e = e\<lparr>trace := trace e @ [Sleep secs]\<rparr>"

definition call :: "'w transport \<Rightarrow> http_request \<Rightarrow> 'w env \<Rightarrow> outcome \<times> 'w env" where
  "call tr req e =
     (case tr req (world e) of
        (out, w) \<Rightarrow> (out, \<lparr>world = w, trace = trace e @ [Call req]\<rparr>))"

subsection \<open>The instance\<close>

definition TRADIER_LIVE_URL :: string where
  "TRADIER_LIVE_URL = ''https://api.tradier.com''"

definition TRADIER_SANDBOX_URL :: string where
  "TRADIER_SANDBOX_URL = ''https://sandbox.tradier.com''"

record TradierApiBase =
  is_paper :: bool
  ACCOUNT_NUMBER :: string
  AUTH_TOKEN :: string
  REQUESTS_HEADERS :: dict

definition init :: "string \<Rightarrow> string \<Rightarrow> bool \<Rightarrow> TradierApiBase" where
  "init account_number auth_token paper =
     \<lparr>is_paper = paper,
      ACCOUNT_NUMBER = account_number,
      AUTH_TOKEN = auth_token,
      REQUESTS_HEADERS =
        [(''Authorization'', ''Bearer '' @ auth_token),
         (''Accept'', ''application/json'')]\<rparr>"

definition base_url :: "TradierApiBase \<Rightarrow> string" where
  "base_url self = (if is_paper self then TRADIER_SANDBOX_URL else TRADIER_LIVE_URL)"

subsection \<open>The retry loop of request\<close>

text \<open>\<^verbatim>\<open>if not params: params = {}\<close>: \<^verbatim>\<open>None\<close> and the empty dict are both falsy.\<close>

definition or_empty :: "dict option \<Rightarrow> dict" where
  "or_empty d = (case d of None \<Rightarrow> [] | Some kvs \<Rightarrow> (if kvs = [] then [] else kvs))"

text \<open>
  The \<^verbatim>\<open>if/elif/elif\<close> chain of the \<^verbatim>\<open>try\<close> block: which transport function is called,
  with which arguments. No branch matches another method.
\<close>

definition build_request ::
  "TradierApiBase \<Rightarrow> string \<Rightarrow> dict \<Rightarrow> dict option \<Rightarrow> dict \<Rightarrow> string \<Rightarrow> http_request option"
where
  "build_request self endpoint params headers data method =
     (if method = ''get'' then
        Some \<lparr>verb = GET, url = base_url self @ ''/'' @ endpoint,
              req_params = params, req_headers = headers, req_data = None\<rparr>
      else if method = ''post'' then
        Some \<lparr>verb = POST, url = base_url self @ ''/'' @ endpoint,
              req_params = params, req_headers = headers, req_data = Some data\<rparr>
      else if method = ''delete'' then
        Some \<lparr>verb = DELETE, url = base_url self @ ''/'' @ endpoint,
              req_params = params, req_headers = headers, req_data = Some data\<rparr>
      else None)"

definition is_2xx :: "response \<Rightarrow> bool" where
  "is_2xx resp = (status_code resp \<ge> 200 \<and> status_code resp < 300)"

text \<open>
  The \<^verbatim>\<open>try\<close> statement of one iteration. It yields the new values of \<^verbatim>\<open>r\<close> and
  \<^verbatim>\<open>successful\<close>, or the exception that leaves the function. \<^verbatim>\<open>r\<close> is \<open>None\<close>
  while the variable is unbound.
\<close>

definition try_request ::
  "'w transport \<Rightarrow> TradierApiBase \<Rightarrow> string \<Rightarrow> dict \<Rightarrow> dict option \<Rightarrow> dict \<Rightarrow> string \<Rightarrow>
   response option \<Rightarrow> bool \<Rightarrow> 'w env \<Rightarrow> (error + response option \<times> bool) \<times> 'w env"
where
  "try_request tr self endpoint params headers data method r successful e =
     (case build_request self endpoint params headers data method of
        None \<Rightarrow>
          (case r of
             None \<Rightarrow> (Inl (UnboundLocalError ''r''), e)
           | Some resp \<Rightarrow> (Inr (r, if is_2xx resp then True else successful), e))
      | Some req \<Rightarrow>
          (case call tr req e of
             (Response resp, e1) \<Rightarrow>
               (Inr (Some resp, if is_2xx resp then True else successful), e1)
           | (RequestException exc, e1) \<Rightarrow>
               (Inr (r, successful), warn (Request_warning method exc) e1)
           | (OtherException exc, e1) \<Rightarrow> (Inl (Uncaught exc), e1)))"

text \<open>
  \<^verbatim>\<open>1.5 * (2 ** (attempt))\<close>: the power is an exact integer, converted to a float for the
  product. The conversion raises \<^verbatim>\<open>OverflowError\<close> from \<open>2 ^ 1024\<close> on; below, the
  product is a float without rounding, so it is the rational number written here.
\<close>

definition backoff :: "int \<Rightarrow> error + rat" where
  "backoff attempt =
     (if attempt \<ge> 1024 then Inl OverflowError else Inr (3 / 2 * 2 ^ nat attempt))"

function retry_loop ::
  "'w transport \<Rightarrow> TradierApiBase \<Rightarrow> string \<Rightarrow> dict \<Rightarrow> dict option \<Rightarrow> dict \<Rightarrow> string \<Rightarrow>
   int \<Rightarrow> int \<Rightarrow> bool \<Rightarrow> response option \<Rightarrow> 'w env \<Rightarrow> (error + response option) \<times> 'w env"
where
  "retry_loop tr self endpoint params headers data method max_retries attempt successful r e =
     (if attempt < max_retries \<and> \<not> successful then
        (case try_request tr self endpoint params headers data method r successful e of
           (Inl err, e1) \<Rightarrow> (Inl err, e1)
         | (Inr (r1, successful1), e1) \<Rightarrow>
             if \<not> successful1 then
               if attempt + 1 < max_retries then
                 (case backoff (attempt + 1) of
                    Inl err \<Rightarrow> (Inl err, e1)
                  | Inr backoff_seconds \<Rightarrow>
                      retry_loop tr self endpoint params headers data method max_retries
                        (attempt + 1) successful1 r1
                        (sleep backoff_seconds (warn (Retry_warning method backoff_seconds) e1)))
               else (Inl (TradierApiError (Request_failed method max_retries)), e1)
             else
               retry_loop tr self endpoint params headers data method max_retries
                 (attempt + 1) successful1 r1 e1)
      else (Inr r, e))"
  by pat_completeness auto
termination
  by (relation "measure (\<lambda>(tr, self, endpoint, params, headers, data, method, max_retries,
                            attempt, successful, r, e). nat (max_retries - attempt))")
     auto

declare retry_loop.simps [simp del]

subsection \<open>After the loop: status check, decoding, API-level errors\<close>

fun truthy :: "json \<Rightarrow> bool" where
  "truthy JNull = False"
| "truthy (JBool b) = b"
| "truthy (JInt n) = (n \<noteq> 0)"
| "truthy (JFloat x) = (x \<noteq> 0)"
| "truthy (JStr s) = (s \<noteq> [])"
| "truthy (JList xs) = (xs \<noteq> [])"
| "truthy (JDict kvs) = (kvs \<noteq> [])"

text \<open>\<^verbatim>\<open>k in s\<close> for two strings: \<open>k\<close> occurs in \<open>s\<close> as a substring.\<close>

fun substring :: "string \<Rightarrow> string \<Rightarrow> bool" where
  "substring k [] = (k = [])"
| "substring k (c # cs) = (take (length k) (c # cs) = k \<or> substring k cs)"

text \<open>
  \<^verbatim>\<open>k in v\<close> for a string \<open>k\<close>: a key of a dict, an element of a list, a substring of
  a string; any other value is not iterable.
\<close>

fun py_in :: "string \<Rightarrow> json \<Rightarrow> error + bool" where
  "py_in k (JDict kvs) = Inr (k \<in> set (map fst kvs))"
| "py_in k (JList xs) = Inr (JStr k \<in> set xs)"
| "py_in k (JStr s) = Inr (substring k s)"
| "py_in k v = Inl TypeError"

text \<open>\<^verbatim>\<open>v[k]\<close> for a string \<open>k\<close>: only a dict can be indexed by a string.\<close>

fun py_getitem :: "json \<Rightarrow> string \<Rightarrow> error + json" where
  "py_getitem (JDict kvs) k =
     (case map_of kvs k of None \<Rightarrow> Inl (KeyError k) | Some v \<Rightarrow> Inr v)"
| "py_getitem v k = Inl TypeError"

text \<open>\<^verbatim>\<open>sep.join(xs)\<close>: every element has to be a string.\<close>

fun py_join :: "string \<Rightarrow> json list \<Rightarrow> error + string" where
  "py_join sep [] = Inr []"
| "py_join sep [JStr s] = Inr s"
| "py_join sep (JStr s # x # xs) =
     (case py_join sep (x # xs) of Inl err \<Rightarrow> Inl err | Inr rest \<Rightarrow> Inr (s @ sep @ rest))"
| "py_join sep (v # xs) = Inl TypeError"

text \<open>What joining strings with a separator means: the strings in order, the separator between them.\<close>

fun join_with :: "string \<Rightarrow> string list \<Rightarrow> string" where
  "join_with sep [] = []"
| "join_with sep [s] = s"
| "join_with sep (s # t # ss) = s @ sep @ join_with sep (t # ss)"

text \<open>
  The condition
  \<^verbatim>\<open>ret_data and "errors" in ret_data and "error" in ret_data["errors"]\<close>,
  evaluated from left to right with short-circuit.
\<close>

definition has_api_error :: "json \<Rightarrow> error + bool" where
  "has_api_error ret_data =
     (if \<not> truthy ret_data then Inr False
      else case py_in ''errors'' ret_data of
        Inl err \<Rightarrow> Inl err
      | Inr False \<Rightarrow> Inr False
      | Inr True \<Rightarrow>
          (case py_getitem ret_data ''errors'' of
             Inl err \<Rightarrow> Inl err
           | Inr errors \<Rightarrow> py_in ''error'' errors))"

text \<open>The value of \<^verbatim>\<open>msg\<close> in the body of that \<^verbatim>\<open>if\<close>.\<close>

definition api_error_msg :: "json \<Rightarrow> error + json" where
  "api_error_msg ret_data =
     (case py_getitem ret_data ''errors'' of
        Inl err \<Rightarrow> Inl err
      | Inr errors \<Rightarrow>
          (case py_getitem errors ''error'' of
             Inl err \<Rightarrow> Inl err
           | Inr (JList xs) \<Rightarrow>
               (case py_join '' | '' xs of Inl err \<Rightarrow> Inl err | Inr s \<Rightarrow> Inr (JStr s))
           | Inr v \<Rightarrow> Inr v))"

text \<open>Lines 110 to 128: everything after the loop, on the variable \<^verbatim>\<open>r\<close>.\<close>

definition check_response :: "response option \<Rightarrow> error + json" where
  "check_response r =
     (case r of
        None \<Rightarrow> Inl (UnboundLocalError ''r'')
      | Some resp \<Rightarrow>
          if status_code resp \<noteq> 200 \<and> status_code resp \<noteq> 201 \<and> status_code resp \<noteq> 502 then
            Inl (TradierApiError (Bad_status (status_code resp) (text_str resp)))
          else
            (let ret_data = (case json resp of None \<Rightarrow> JDict [] | Some v \<Rightarrow> v) in
             case has_api_error ret_data of
               Inl err \<Rightarrow> Inl err
             | Inr True \<Rightarrow>
                 (case api_error_msg ret_data of
                    Inl err \<Rightarrow> Inl err
                  | Inr msg \<Rightarrow> Inl (TradierApiError (Api_error msg)))
             | Inr False \<Rightarrow> Inr ret_data))"

subsection \<open>request, delete, send\<close>

definition request ::
  "'w transport \<Rightarrow> TradierApiBase \<Rightarrow> string \<Rightarrow> dict option \<Rightarrow> dict option \<Rightarrow> dict option \<Rightarrow>
   string \<Rightarrow> int \<Rightarrow> 'w env \<Rightarrow> (error + json) \<times> 'w env"
where
  "request tr self endpoint params headers data method max_retries e =
     (if method \<notin> set [''get'', ''post'', ''delete''] then
        (Inl (ValueError (Invalid_method method)), e)
      else
        (case retry_loop tr self endpoint (or_empty params) headers (or_empty data) method
                max_retries 0 False None e of
           (Inl err, e1) \<Rightarrow> (Inl err, e1)
         | (Inr r, e1) \<Rightarrow> (check_response r, e1)))"

definition delete ::
  "'w transport \<Rightarrow> TradierApiBase \<Rightarrow> string \<Rightarrow> dict option \<Rightarrow> dict option \<Rightarrow> dict option \<Rightarrow>
   'w env \<Rightarrow> (error + json) \<times> 'w env"
where
  "delete tr self endpoint params headers data e =
     request tr self endpoint params headers data ''delete'' 3 e"

definition send ::
  "'w transport \<Rightarrow> TradierApiBase \<Rightarrow> string \<Rightarrow> dict option \<Rightarrow> dict option \<Rightarrow>
   'w env \<Rightarrow> (error + json) \<times> 'w env"
where
  "send tr self endpoint data headers e =
     request tr self endpoint (Some []) headers data ''post'' 3 e"

text \<open>The transport calls recorded in a trace, in order.\<close>

fun calls :: "event list \<Rightarrow> http_request list" where
  "calls [] = []"
| "calls (Call req # evs) = req # calls evs"
| "calls (ev # evs) = calls evs"

fun sleeps :: "event list \<Rightarrow> rat list" where
  "sleeps [] = []"
| "sleeps (Sleep secs # evs) = secs # sleeps evs"
| "sleeps (ev # evs) = sleeps evs"

text \<open>
  What can be observed from outside: the trace without its warnings. An attempt has failed
  when the transport raised a \<^verbatim>\<open>RequestException\<close> or answered with a status outside
  \<open>[200, 300)\<close>. \<open>schedule req attempt max_retries\<close> is what the loop does from
  \<open>attempt\<close> on when every attempt fails: a call, then a sleep and a call for each
  further attempt.
\<close>

fun actions :: "event list \<Rightarrow> event list" where
  "actions [] = []"
| "actions (Warn w # evs) = actions evs"
| "actions (ev # evs) = ev # actions evs"

definition failed_attempt :: "outcome \<Rightarrow> bool" where
  "failed_attempt out =
     (case out of
        Response resp \<Rightarrow> \<not> is_2xx resp
      | RequestException exc \<Rightarrow> True
      | OtherException exc \<Rightarrow> False)"

definition schedule :: "http_request \<Rightarrow> int \<Rightarrow> int \<Rightarrow> event list" where
  "schedule req attempt max_retries =
     Call req # concat (map (\<lambda>k. [Sleep (3 / 2 * 2 ^ k), Call req])
                          [nat attempt + 1 ..< nat max_retries])"

text \<open>
  \<open>answered_last tr resp e\<close>: the last thing recorded in \<open>e\<close> is a transport call, and
  \<open>resp\<close> is the response the transport gave to it; \<open>resp\<close> is the last received response.
\<close>

definition answered_last :: "'w transport \<Rightarrow> response \<Rightarrow> 'w env \<Rightarrow> bool" where
  "answered_last tr resp e =
     (\<exists>req (e0 :: 'w env). trace e = trace e0 @ [Call req] \<and> tr req (world e0) = (Response resp, world e))"

subsection \<open>date2str\<close>






















subsection \<open>Transport stubs\<close>

text \<open>
  Stubs of the transport, for evaluating \<^verbatim>\<open>request\<close> on concrete inputs. The world of a
  stub is the number of calls it has answered.
\<close>

definition always :: "outcome \<Rightarrow> nat transport" where
  "always out = (\<lambda>req w. (out, Suc w))"

definition env0 :: "nat env" where
  "env0 = \<lparr>world = 0, trace = []\<rparr>"

definition client :: TradierApiBase where
  "client = init ''VA000000'' ''secret'' True"

definition resp_400 :: response where
  "resp_400 =
     \<lparr>status_code = 400, text_str = ''{\"errors\":{\"error\":\"bad request\"}}'',
      json = Some (JDict [(''errors'', JDict [(''error'', JStr ''bad request'')])])\<rparr>"

definition resp_502 :: response where
  "resp_502 = \<lparr>status_code = 502, text_str = ''<html>Bad Gateway</html>'', json = None\<rparr>"

definition resp_200_foo :: response where
  "resp_200_foo =
     \<lparr>status_code = 200, text_str = ''{\"foo\": \"bar\"}'',
      json = Some (JDict [(''foo'', JStr ''bar'')])\<rparr>"

definition resp_200_errors :: response where
  "resp_200_errors =
     \<lparr>status_code = 200, text_str = ''{\"errors\":{\"error\":[\"a\",\"b\"]}}'',
      json = Some (JDict [(''errors'', JDict [(''error'', JList [JStr ''a'', JStr ''b''])])])\<rparr>"

definition get_request :: "string \<Rightarrow> dict option \<Rightarrow> http_request" where
  "get_request endpoint headers =
     \<lparr>verb = GET, url = ''https://sandbox.tradier.com/'' @ endpoint,
      req_params = [], req_headers = headers, req_data = None\<rparr>"

section \<open>Properties\<close>

subsection \<open>One iteration, and the loop when every attempt fails\<close>

lemma build_request_valid:
  assumes "method \<in> set [''get'', ''post'', ''delete'']"
  shows "\<exists>req. build_request self endpoint params headers data method = Some req \<and>
               req_headers req = headers"
  using assms by (auto simp: build_request_def)

lemma try_request_exception:
  assumes "build_request self endpoint params headers data method = Some req"
    and "fst (tr req (world e)) = RequestException exc"
  shows "try_request tr self endpoint params headers data method r successful e =
           (Inr (r, successful),
            \<lparr>world = snd (tr req (world e)),
             trace = trace e @ [Call req, Warn (Request_warning method exc)]\<rparr>)"
  using assms by (cases "tr req (world e)") (simp add: try_request_def call_def warn_def)

lemma try_request_response:
  assumes "build_request self endpoint params headers data method = Some req"
    and "fst (tr req (world e)) = Response resp"
  shows "try_request tr self endpoint params headers data method r successful e =
           (Inr (Some resp, if is_2xx resp then True else successful),
            \<lparr>world = snd (tr req (world e)), trace = trace e @ [Call req]\<rparr>)"
  using assms by (cases "tr req (world e)") (simp add: try_request_def call_def)

lemma actions_append: "actions (xs @ ys) = actions xs @ actions ys"
  by (induction xs rule: actions.induct) simp_all

text \<open>One failed attempt: the transport is called once, and only warnings follow the call.\<close>

lemma try_request_failed:
  assumes req: "build_request self endpoint params headers data method = Some req"
    and failed: "failed_attempt (fst (tr req (world e)))"
  shows "\<exists>r1 e1. try_request tr self endpoint params headers data method r False e =
                    (Inr (r1, False), e1) \<and>
                  world e1 = snd (tr req (world e)) \<and>
                  actions (trace e1) = actions (trace e) @ [Call req]"
proof (cases "fst (tr req (world e))")
  case (Response resp)
  with failed have "\<not> is_2xx resp" by (simp add: failed_attempt_def)
  with try_request_response [where tr = tr and e = e and r = r and successful = False, OF req Response] show ?thesis
    by (simp add: actions_append)
next
  case (RequestException exc)
  with try_request_exception [where tr = tr and e = e and r = r and successful = False, OF req RequestException] show ?thesis
    by (simp add: actions_append)
next
  case (OtherException exc)
  with failed show ?thesis by (simp add: failed_attempt_def)
qed

lemma schedule_last: "attempt + 1 \<ge> max_retries \<Longrightarrow> schedule req attempt max_retries = [Call req]"
  by (simp add: schedule_def)

lemma schedule_step:
  assumes "0 \<le> attempt" and "attempt + 1 < max_retries"
  shows "schedule req attempt max_retries =
           [Call req, Sleep (3 / 2 * 2 ^ nat (attempt + 1))] @ schedule req (attempt + 1) max_retries"
proof -
  have "[nat attempt + 1 ..< nat max_retries] =
          (nat attempt + 1) # [nat (attempt + 1) + 1 ..< nat max_retries]"
    using assms by (simp add: upt_conv_Cons nat_add_distrib)
  moreover have "nat (attempt + 1) = nat attempt + 1"
    using assms by (simp add: nat_add_distrib)
  ultimately show ?thesis by (simp add: schedule_def)
qed

lemma retry_loop_exhausted:
  assumes failed: "\<And>w. failed_attempt (fst (tr req w))"
    and req: "build_request self endpoint params headers data method = Some req"
    and "0 \<le> attempt" and "attempt < max_retries" and le: "max_retries \<le> 1024"
  shows "\<exists>e'. retry_loop tr self endpoint params headers data method max_retries attempt False r e =
                 (Inl (TradierApiError (Request_failed method max_retries)), e') \<and>
              actions (trace e') = actions (trace e) @ schedule req attempt max_retries"
  using assms(3,4)
proof (induction "nat (max_retries - attempt)" arbitrary: attempt r e)
  case 0
  then show ?case by simp
next
  case (Suc n)
  from try_request_failed [where tr = tr and e = e and r = r, OF req failed] obtain r1 e1 where
    step: "try_request tr self endpoint params headers data method r False e = (Inr (r1, False), e1)"
    and tr1: "actions (trace e1) = actions (trace e) @ [Call req]"
    by blast
  show ?case
  proof (cases "attempt + 1 < max_retries")
    case True
    let ?b = "3 / 2 * 2 ^ nat (attempt + 1) :: rat"
    let ?e2 = "sleep ?b (warn (Retry_warning method ?b) e1)"
    have b: "backoff (attempt + 1) = Inr ?b"
      using True le by (simp add: backoff_def)
    have n: "n = nat (max_retries - (attempt + 1))"
      using Suc.hyps(2) by linarith
    from Suc.hyps(1) [OF n, of r1 ?e2] Suc.prems True obtain e' where
      rest: "retry_loop tr self endpoint params headers data method max_retries (attempt + 1)
               False r1 ?e2 =
             (Inl (TradierApiError (Request_failed method max_retries)), e')"
      and tr2: "actions (trace e') = actions (trace ?e2) @ schedule req (attempt + 1) max_retries"
      by auto
    have "retry_loop tr self endpoint params headers data method max_retries attempt False r e =
            (Inl (TradierApiError (Request_failed method max_retries)), e')"
      using Suc.prems True step b rest
      by (simp add: retry_loop.simps [of _ _ _ _ _ _ _ _ attempt])
    moreover have "actions (trace e') = actions (trace e) @ schedule req attempt max_retries"
      using tr2 tr1 schedule_step [OF Suc.prems(1) True, of req]
      by (simp add: sleep_def warn_def actions_append)
    ultimately show ?thesis by blast
  next
    case False
    have "retry_loop tr self endpoint params headers data method max_retries attempt False r e =
            (Inl (TradierApiError (Request_failed method max_retries)), e1)"
      using Suc.prems False step
      by (simp add: retry_loop.simps [of _ _ _ _ _ _ _ _ attempt])
    moreover have "actions (trace e1) = actions (trace e) @ schedule req attempt max_retries"
      using tr1 False by (simp add: schedule_last)
    ultimately show ?thesis by blast
  qed
qed

lemma retry_loop_success:
  assumes req: "build_request self endpoint params headers data method = Some req"
    and resp: "fst (tr req (world e)) = Response resp" and ok: "is_2xx resp"
    and "attempt < max_retries"
  shows "retry_loop tr self endpoint params headers data method max_retries attempt False r e =
           (Inr (Some resp), \<lparr>world = snd (tr req (world e)), trace = trace e @ [Call req]\<rparr>)"
  using assms(4) try_request_response [where tr = tr and e = e and r = r and successful = False, OF req resp] ok
  by (simp add: retry_loop.simps [of _ _ _ _ _ _ _ _ attempt]
                retry_loop.simps [of _ _ _ _ _ _ _ _ "attempt + 1"])

lemma schedule_3: "schedule req 0 3 = [Call req, Sleep 3, Call req, Sleep 6, Call req]"
  by (simp add: schedule_def upt_conv_Cons)

subsection \<open>Leaving the loop without an exception\<close>

lemma try_request_successful:
  assumes "build_request self endpoint params headers data method = Some req"
    and "try_request tr self endpoint params headers data method r successful e =
           (Inr (r1, successful1), e1)"
    and "successful1" and "\<not> successful"
  shows "\<exists>resp. r1 = Some resp \<and> is_2xx resp \<and> answered_last tr resp e1"
proof (cases "tr req (world e)")
  case (Pair out w)
  with assms show ?thesis
    by (cases out) (auto simp: try_request_def call_def warn_def answered_last_def split: if_splits)
qed

lemma retry_loop_exit:
  assumes "retry_loop tr self endpoint params headers data method max_retries attempt successful r e =
             (Inr r', e')"
    and "build_request self endpoint params headers data method = Some req"
    and "successful \<longrightarrow> (\<exists>resp. r = Some resp \<and> is_2xx resp \<and> answered_last tr resp e)"
    and "successful \<or> attempt < max_retries"
  shows "\<exists>resp. r' = Some resp \<and> is_2xx resp \<and> answered_last tr resp e'"
  using assms
proof (induction tr self endpoint params headers data "method" max_retries attempt successful r e
       rule: retry_loop.induct)
  case (1 tr self endpoint params headers data meth max_retries attempt successful r e)
  note req = "1.prems"(2)
  show ?case
  proof (cases "attempt < max_retries \<and> \<not> successful")
    case False
    with "1.prems" show ?thesis
      by (auto simp: retry_loop.simps [of _ _ _ _ _ _ _ _ attempt])
  next
    case True
    show ?thesis
    proof (cases "try_request tr self endpoint params headers data meth r successful e")
      case (Pair res e1)
      show ?thesis
      proof (cases res)
        case (Inl err)
        with True Pair "1.prems"(1) show ?thesis
          by (simp add: retry_loop.simps [of _ _ _ _ _ _ _ _ attempt])
      next
        case (Inr rs)
        obtain r1 successful1 where rs: "rs = (r1, successful1)" by (cases rs)
        note step = Pair [unfolded Inr rs]
        show ?thesis
        proof (cases successful1)
          case succ: True
          from try_request_successful [OF req step succ] True
          have r1: "\<exists>resp. r1 = Some resp \<and> is_2xx resp \<and> answered_last tr resp e1" by simp
          from "1.prems"(1) True step succ
          have "retry_loop tr self endpoint params headers data meth max_retries (attempt + 1)
                  successful1 r1 e1 = (Inr r', e')"
            by (simp add: retry_loop.simps [of _ _ _ _ _ _ _ _ attempt])
          from "1.IH"(2) [OF True step [symmetric] refl refl _ this req] succ r1
          show ?thesis by simp
        next
          case fail: False
          show ?thesis
          proof (cases "attempt + 1 < max_retries")
            case lt: True
            show ?thesis
            proof (cases "backoff (attempt + 1)")
              case (Inl err)
              with "1.prems"(1) True step fail lt show ?thesis
                by (simp add: retry_loop.simps [of _ _ _ _ _ _ _ _ attempt])
            next
              case b: (Inr secs)
              from "1.prems"(1) True step fail lt b
              have "retry_loop tr self endpoint params headers data meth max_retries (attempt + 1)
                      successful1 r1 (sleep secs (warn (Retry_warning meth secs) e1)) =
                    (Inr r', e')"
                by (simp add: retry_loop.simps [of _ _ _ _ _ _ _ _ attempt])
              from "1.IH"(1) [OF True step [symmetric] refl refl _ lt b this req] fail lt
              show ?thesis by simp
            qed
          next
            case ge: False
            with "1.prems"(1) True step fail show ?thesis
              by (simp add: retry_loop.simps [of _ _ _ _ _ _ _ _ attempt])
          qed
        qed
      qed
    qed
  qed
qed

lemma request_200_foo:
  "request (always (Response resp_200_foo)) client ''orders'' None None None ''get'' 3 env0 =
     (Inr (JDict [(''foo'', JStr ''bar'')]), \<lparr>world = 1, trace = [Call (get_request ''orders'' None)]\<rparr>)"
  by (simp add: request_def retry_loop.simps try_request_def build_request_def call_def always_def
      env0_def client_def init_def base_url_def TRADIER_SANDBOX_URL_def resp_200_foo_def is_2xx_def
      or_empty_def get_request_def check_response_def has_api_error_def)

subsection \<open>API-level errors in an accepted response\<close>

lemma py_join_strings: "py_join sep (map JStr ss) = Inr (join_with sep ss)"
  by (induction sep ss rule: join_with.induct) simp_all

lemma check_response_api_error:
  assumes accepted: "status_code resp = 200 \<or> status_code resp = 201 \<or> status_code resp = 502"
    and body: "json resp = Some (JDict body)"
    and errors: "map_of body ''errors'' = Some (JDict errors)"
    and field: "map_of errors ''error'' = Some field"
    and msg: "field = JStr msg \<or> (\<exists>ss. field = JList (map JStr ss) \<and> msg = join_with '' | '' ss)"
  shows "check_response (Some resp) = Inl (TradierApiError (Api_error (JStr msg)))"
proof -
  from errors have nonempty: "body \<noteq> []" by auto
  from errors have k1: "''errors'' \<in> fst ` set body" by (rule map_of_SomeD [THEN imageI, of _ _ _ fst, simplified])
  from field have k2: "''error'' \<in> fst ` set errors" by (rule map_of_SomeD [THEN imageI, of _ _ _ fst, simplified])
  have has: "has_api_error (JDict body) = Inr True"
    using nonempty k1 k2 errors by (simp add: has_api_error_def)
  have "api_error_msg (JDict body) = Inr (JStr msg)"
    using errors field msg by (auto simp: api_error_msg_def py_join_strings)
  with has accepted body show ?thesis
    by (auto simp: check_response_def)
qed

lemma retry_loop_200_errors:
  "retry_loop (always (Response resp_200_errors)) client ''orders'' (or_empty None) None
     (or_empty None) ''get'' 3 0 False None env0 =
   (Inr (Some resp_200_errors), \<lparr>world = 1, trace = [Call (get_request ''orders'' None)]\<rparr>)"
  by (simp add: retry_loop.simps try_request_def build_request_def call_def always_def
      env0_def client_def init_def base_url_def TRADIER_SANDBOX_URL_def resp_200_errors_def is_2xx_def
      or_empty_def get_request_def)

subsection \<open>Formatting and reading back a date\<close>




















subsection \<open>The claims\<close>

text \<open>
  C4. A method other than \<^verbatim>\<open>get\<close>, \<^verbatim>\<open>post\<close> and \<^verbatim>\<open>delete\<close> makes \<^verbatim>\<open>request\<close> raise
  \<^verbatim>\<open>ValueError\<close> before any network activity: whatever the endpoint, params, headers, data
  and retry bound, the environment is returned as it was, so no transport call was made.
\<close>

theorem request_invalid_method:
  assumes "method \<noteq> ''get''" and "method \<noteq> ''post''" and "method \<noteq> ''delete''"
  shows "request tr self endpoint params headers data method max_retries e =
           (Inl (ValueError (Invalid_method method)), e)"
  using assms by (simp add: request_def)

theorem request_invalid_method_witness:
  "''put'' \<noteq> ''get'' \<and> ''put'' \<noteq> ''post'' \<and> ''put'' \<noteq> ''delete'' \<and>
   request (always (Response resp_200_foo)) client ''orders'' None None None ''put'' 3 env0 =
     (Inl (ValueError (Invalid_method ''put'')), env0)"
  using request_invalid_method
          [of "''put''" "always (Response resp_200_foo)" client "''orders''" None None None 3 env0]
  by simp

text \<open>
  C3. When every attempt raises a transport-level exception, \<^verbatim>\<open>request\<close> with
  \<^verbatim>\<open>max_retries=3\<close> calls the transport exactly three times, sleeps exactly twice in
  between, 3 seconds after the first attempt and 6 seconds after the second
  (\<open>1.5 * 2 ^ attempt\<close> for the 1-indexed attempt), and then raises the failure
  \<^verbatim>\<open>Error: {method} request failed after 3 attempts.\<close>; it returns no mapping. The order
  of calls and sleeps is that of the trace without its warnings.
\<close>

theorem request_all_attempts_raise:
  assumes raises: "\<And>req w. \<exists>exc. fst (tr req w) = RequestException exc"
    and valid: "method \<in> set [''get'', ''post'', ''delete'']"
  shows "\<exists>req e'. request tr self endpoint params headers data method 3 e =
                     (Inl (TradierApiError (Request_failed method 3)), e') \<and>
                   actions (trace e') =
                     actions (trace e) @ [Call req, Sleep 3, Call req, Sleep 6, Call req]"
proof -
  from build_request_valid [OF valid] obtain req where
    req: "build_request self endpoint (or_empty params) headers (or_empty data) method = Some req"
    by blast
  have failed: "\<And>w. failed_attempt (fst (tr req w))"
  proof -
    fix w
    from raises [of req w] show "failed_attempt (fst (tr req w))"
      by (auto simp: failed_attempt_def)
  qed
  from retry_loop_exhausted [where tr = tr and e = e and r = None and attempt = 0
                               and max_retries = 3, OF failed req]
  obtain e' where
    "retry_loop tr self endpoint (or_empty params) headers (or_empty data) method 3 0 False None e =
       (Inl (TradierApiError (Request_failed method 3)), e')"
    and "actions (trace e') = actions (trace e) @ schedule req 0 3"
    by auto
  with valid show ?thesis
    by (auto simp: request_def schedule_3)
qed

theorem request_all_attempts_raise_witness:
  "(\<forall>req w. \<exists>exc. fst (always (RequestException ''timed out'') req w) = RequestException exc) \<and>
   ''get'' \<in> set [''get'', ''post'', ''delete''] \<and>
   (\<exists>req e'. request (always (RequestException ''timed out'')) client ''orders'' None None None
                ''get'' 3 env0 =
                (Inl (TradierApiError (Request_failed ''get'' 3)), e') \<and>
              actions (trace e') =
                actions (trace env0) @ [Call req, Sleep 3, Call req, Sleep 6, Call req])"
proof -
  have h: "\<And>req w. \<exists>exc. fst (always (RequestException ''timed out'') req w) = RequestException exc"
    by (simp add: always_def)
  have m: "''get'' \<in> set [''get'', ''post'', ''delete'']" by simp
  from request_all_attempts_raise [of "always (RequestException ''timed out'')" "''get''", OF h m]
  show ?thesis using h m by blast
qed

text \<open>
  C1, as the claim states it, fails. A transport that always answers status 400 with the body
  \<^verbatim>\<open>{"errors":{"error":"bad request"}}\<close> never leaves the loop with that response: 400 is
  not in \<open>[200, 300)\<close>, so the attempt counts as failed, and after the third attempt
  \<^verbatim>\<open>request\<close> raises the retry-exhaustion failure. The body is not decoded.
\<close>

theorem request_status_400_counterexample:
  "request (always (Response resp_400)) client ''orders'' None None None ''get'' 3 env0 =
     (Inl (TradierApiError (Request_failed ''get'' 3)),
      \<lparr>world = 3,
       trace = [Call (get_request ''orders'' None), Warn (Retry_warning ''get'' 3), Sleep 3,
                Call (get_request ''orders'' None), Warn (Retry_warning ''get'' 6), Sleep 6,
                Call (get_request ''orders'' None)]\<rparr>) \<and>
   Request_failed ''get'' 3 \<noteq> Api_error (JStr ''bad request'')"
  by (simp add: request_def retry_loop.simps try_request_def build_request_def call_def always_def
      env0_def client_def init_def base_url_def TRADIER_SANDBOX_URL_def resp_400_def is_2xx_def
      backoff_def warn_def sleep_def or_empty_def get_request_def)

text \<open>
  C1, amended. When every response has status 400, whatever its body, \<^verbatim>\<open>request\<close> (with
  a valid method and \<open>1 \<le> max_retries \<le> 1024\<close>) raises \<^verbatim>\<open>TradierApiError\<close> and returns no
  mapping, and the message of the failure is never the one made from the body's
  \<^verbatim>\<open>errors.error\<close> field.
\<close>

theorem request_status_400_fails:
  assumes status: "\<And>req w. \<exists>resp. fst (tr req w) = Response resp \<and> status_code resp = 400"
    and valid: "method \<in> set [''get'', ''post'', ''delete'']"
    and retries: "1 \<le> max_retries" "max_retries \<le> 1024"
  shows "\<exists>m e'. request tr self endpoint params headers data method max_retries e =
                   (Inl (TradierApiError m), e') \<and>
                 (\<forall>msg. m \<noteq> Api_error msg)"
proof -
  from build_request_valid [OF valid] obtain req where
    req: "build_request self endpoint (or_empty params) headers (or_empty data) method = Some req"
    by blast
  have failed: "\<And>w. failed_attempt (fst (tr req w))"
  proof -
    fix w
    from status [of req w] show "failed_attempt (fst (tr req w))"
      by (auto simp: failed_attempt_def is_2xx_def)
  qed
  from retry_loop_exhausted [where tr = tr and e = e and r = None and attempt = 0
                               and max_retries = max_retries, OF failed req] retries
  obtain e' where
    "retry_loop tr self endpoint (or_empty params) headers (or_empty data) method max_retries
       0 False None e =
       (Inl (TradierApiError (Request_failed method max_retries)), e')"
    by auto
  with valid show ?thesis
    by (auto simp: request_def)
qed

theorem request_status_400_fails_witness:
  "(\<forall>req w. \<exists>resp. fst (always (Response resp_400) req w) = Response resp \<and>
              status_code resp = 400) \<and>
   ''get'' \<in> set [''get'', ''post'', ''delete''] \<and> (1::int) \<le> 3 \<and> (3::int) \<le> 1024 \<and>
   (\<exists>m e'. request (always (Response resp_400)) client ''orders'' None None None ''get'' 3 env0 =
              (Inl (TradierApiError m), e') \<and>
            (\<forall>msg. m \<noteq> Api_error msg))"
proof -
  have h: "\<And>req w. \<exists>resp. fst (always (Response resp_400) req w) = Response resp \<and>
                          status_code resp = 400"
    by (simp add: always_def resp_400_def)
  have m: "''get'' \<in> set [''get'', ''post'', ''delete'']" by simp
  from request_status_400_fails [of "always (Response resp_400)" "''get''" 3, OF h m]
  show ?thesis using h m by simp
qed

text \<open>
  C2. The comment above the status check says that 502 is ignored, and the check lets 502
  through; but a 502 response never reaches that check. With a transport that always answers
  502 and a body that is not JSON, \<^verbatim>\<open>request\<close> retries, sleeping 3 and 6 seconds, and
  raises the retry-exhaustion failure instead of returning the empty mapping.
\<close>

theorem request_status_502_retried:
  "request (always (Response resp_502)) client ''orders'' None None None ''get'' 3 env0 =
     (Inl (TradierApiError (Request_failed ''get'' 3)),
      \<lparr>world = 3,
       trace = [Call (get_request ''orders'' None), Warn (Retry_warning ''get'' 3), Sleep 3,
                Call (get_request ''orders'' None), Warn (Retry_warning ''get'' 6), Sleep 6,
                Call (get_request ''orders'' None)]\<rparr>)"
  by (simp add: request_def retry_loop.simps try_request_def build_request_def call_def always_def
      env0_def client_def init_def base_url_def TRADIER_SANDBOX_URL_def resp_502_def is_2xx_def
      backoff_def warn_def sleep_def or_empty_def get_request_def)

text \<open>
  C6. When the first response of the transport has status 200 and the JSON body
  \<^verbatim>\<open>{"foo": "bar"}\<close>, \<^verbatim>\<open>request\<close> returns that mapping, and all it has done is one
  transport call: the trace grows by a single call, with no sleep and no warning.
\<close>

theorem request_first_response_200:
  assumes first: "\<And>req. \<exists>resp. fst (tr req (world e)) = Response resp \<and> status_code resp = 200 \<and>
                     json resp = Some (JDict [(''foo'', JStr ''bar'')])"
    and valid: "method \<in> set [''get'', ''post'', ''delete'']"
    and retries: "1 \<le> max_retries"
  shows "\<exists>req e'. request tr self endpoint params headers data method max_retries e =
                     (Inr (JDict [(''foo'', JStr ''bar'')]), e') \<and>
                   trace e' = trace e @ [Call req]"
proof -
  from build_request_valid [OF valid] obtain req where
    req: "build_request self endpoint (or_empty params) headers (or_empty data) method = Some req"
    by blast
  from first [of req] obtain resp where
    resp: "fst (tr req (world e)) = Response resp" and st: "status_code resp = 200"
    and js: "json resp = Some (JDict [(''foo'', JStr ''bar'')])"
    by blast
  have ok: "is_2xx resp" using st by (simp add: is_2xx_def)
  have loop: "retry_loop tr self endpoint (or_empty params) headers (or_empty data) method
                max_retries 0 False None e =
              (Inr (Some resp), \<lparr>world = snd (tr req (world e)), trace = trace e @ [Call req]\<rparr>)"
    using retry_loop_success [where tr = tr and e = e and r = None, OF req resp ok] retries
    by simp
  have "check_response (Some resp) = Inr (JDict [(''foo'', JStr ''bar'')])"
    using st js by (simp add: check_response_def has_api_error_def)
  with loop valid show ?thesis
    by (auto simp: request_def)
qed

theorem request_first_response_200_witness:
  "(\<forall>req. \<exists>resp. fst (always (Response resp_200_foo) req (world env0)) = Response resp \<and>
        status_code resp = 200 \<and> json resp = Some (JDict [(''foo'', JStr ''bar'')])) \<and>
   ''get'' \<in> set [''get'', ''post'', ''delete''] \<and> (1::int) \<le> 3 \<and>
   (\<exists>req e'. request (always (Response resp_200_foo)) client ''orders'' None None None ''get'' 3 env0 =
                (Inr (JDict [(''foo'', JStr ''bar'')]), e') \<and>
              trace e' = trace env0 @ [Call req])"
proof -
  have h: "\<And>req. \<exists>resp. fst (always (Response resp_200_foo) req (world env0)) = Response resp \<and>
        status_code resp = 200 \<and> json resp = Some (JDict [(''foo'', JStr ''bar'')])"
    by (simp add: always_def resp_200_foo_def)
  have m: "''get'' \<in> set [''get'', ''post'', ''delete'']" by simp
  from request_first_response_200 [of "always (Response resp_200_foo)" env0 "''get''" 3, OF h m]
  show ?thesis using h m by simp
qed

text \<open>
  C10, as the claim states it, fails: the method is checked before the loop, so a call with
  \<^verbatim>\<open>max_retries=0\<close> and the method \<^verbatim>\<open>put\<close> raises \<^verbatim>\<open>ValueError\<close>, not an
  unbound-local error.
\<close>

theorem request_no_retries_counterexample:
  "request (always (Response resp_200_foo)) client ''orders'' None None None ''put'' 0 env0 =
     (Inl (ValueError (Invalid_method ''put'')), env0)"
  by (simp add: request_def)

text \<open>
  C10, amended. For every call with a method among \<^verbatim>\<open>get\<close>, \<^verbatim>\<open>post\<close>, \<^verbatim>\<open>delete\<close>
  and \<open>max_retries \<le> 0\<close>, the loop body never runs, the status check reads the unbound
  variable \<^verbatim>\<open>r\<close>, and the call raises \<^verbatim>\<open>UnboundLocalError\<close>, having made no transport
  call.
\<close>

theorem request_no_retries:
  assumes valid: "method \<in> set [''get'', ''post'', ''delete'']"
    and retries: "max_retries \<le> 0"
  shows "request tr self endpoint params headers data method max_retries e =
           (Inl (UnboundLocalError ''r''), e)"
  using assms by (simp add: request_def retry_loop.simps check_response_def)

theorem request_no_retries_witness:
  "''get'' \<in> set [''get'', ''post'', ''delete''] \<and> (0::int) \<le> 0 \<and>
   request (always (Response resp_200_foo)) client ''orders'' None None None ''get'' 0 env0 =
     (Inl (UnboundLocalError ''r''), env0)"
  using request_no_retries [of "''get''" 0 "always (Response resp_200_foo)" client "''orders''"
                              None None None env0]
  by simp

text \<open>
  C8. Whenever \<^verbatim>\<open>request\<close> returns normally, the loop was left with \<^verbatim>\<open>r\<close> bound to the
  last received response, and the status of that response is 200 or 201: leaving the loop
  without an exception needs a status in \<open>[200, 300)\<close>, of which the status check keeps
  200 and 201. So 502 is never accepted there, and the check never raises for a status
  outside \<open>[200, 300)\<close>. (A normal return implies \<open>1 \<le> max_retries\<close>, see C10.)
\<close>

theorem request_returns_only_200_201:
  assumes "request tr self endpoint params headers data method max_retries e = (Inr v, e')"
  shows "\<exists>resp. retry_loop tr self endpoint (or_empty params) headers (or_empty data) method
                  max_retries 0 False None e = (Inr (Some resp), e') \<and>
                answered_last tr resp e' \<and>
                (status_code resp = 200 \<or> status_code resp = 201)"
proof -
  from assms have valid: "method \<in> set [''get'', ''post'', ''delete'']"
    by (auto simp: request_def split: if_splits)
  from build_request_valid [OF valid] obtain req where
    req: "build_request self endpoint (or_empty params) headers (or_empty data) method = Some req"
    by blast
  obtain res e1 where loop:
    "retry_loop tr self endpoint (or_empty params) headers (or_empty data) method
       max_retries 0 False None e = (res, e1)"
    by (cases "retry_loop tr self endpoint (or_empty params) headers (or_empty data) method
                 max_retries 0 False None e")
  from assms valid loop obtain r where res: "res = Inr r" and chk: "check_response r = Inr v"
    and e1: "e1 = e'"
    by (cases res) (auto simp: request_def)
  from chk obtain resp0 where r: "r = Some resp0"
    by (cases r) (auto simp: check_response_def)
  have pos: "1 \<le> max_retries"
  proof (rule ccontr)
    assume "\<not> 1 \<le> max_retries"
    with loop res r show False
      by (simp add: retry_loop.simps [of _ _ _ _ _ _ _ _ 0])
  qed
  from retry_loop_exit [OF loop [unfolded res] req] pos
  have ok: "is_2xx resp0" and last: "answered_last tr resp0 e1" using r by simp_all
  from chk r have "status_code resp0 = 200 \<or> status_code resp0 = 201 \<or> status_code resp0 = 502"
    by (auto simp: check_response_def split: if_splits)
  with ok have "status_code resp0 = 200 \<or> status_code resp0 = 201"
    by (auto simp: is_2xx_def)
  with loop res r e1 last show ?thesis by simp
qed

theorem request_returns_only_200_201_witness:
  "request (always (Response resp_200_foo)) client ''orders'' None None None ''get'' 3 env0 =
     (Inr (JDict [(''foo'', JStr ''bar'')]),
      \<lparr>world = 1, trace = [Call (get_request ''orders'' None)]\<rparr>) \<and>
   (\<exists>resp. retry_loop (always (Response resp_200_foo)) client ''orders'' (or_empty None) None
             (or_empty None) ''get'' 3 0 False None env0 =
             (Inr (Some resp), \<lparr>world = 1, trace = [Call (get_request ''orders'' None)]\<rparr>) \<and>
           answered_last (always (Response resp_200_foo)) resp
             \<lparr>world = 1, trace = [Call (get_request ''orders'' None)]\<rparr> \<and>
           (status_code resp = 200 \<or> status_code resp = 201))"
  using request_returns_only_200_201 [OF request_200_foo] request_200_foo by simp

text \<open>
  C5. When the loop is left with a response of accepted status whose decoded body has an
  \<^verbatim>\<open>errors.error\<close> field, \<^verbatim>\<open>request\<close> raises \<^verbatim>\<open>TradierApiError\<close> with the message made
  from that field: the field itself when it is a string, its elements joined by \<^verbatim>\<open>" | "\<close>
  when it is a list of strings (the two forms of the upstream error convention). The check
  runs although the status was accepted; \<^verbatim>\<open>{"errors":{"error":["a","b"]}}\<close> with status 200
  gives the message \<^verbatim>\<open>a | b\<close>.
\<close>

theorem request_api_error:
  assumes valid: "method \<in> set [''get'', ''post'', ''delete'']"
    and loop: "retry_loop tr self endpoint (or_empty params) headers (or_empty data) method
                 max_retries 0 False None e = (Inr (Some resp), e')"
    and accepted: "status_code resp = 200 \<or> status_code resp = 201 \<or> status_code resp = 502"
    and body: "json resp = Some (JDict body)"
    and errors: "map_of body ''errors'' = Some (JDict errors)"
    and field: "map_of errors ''error'' = Some field"
    and msg: "field = JStr msg \<or> (\<exists>ss. field = JList (map JStr ss) \<and> msg = join_with '' | '' ss)"
  shows "request tr self endpoint params headers data method max_retries e =
           (Inl (TradierApiError (Api_error (JStr msg))), e')"
  using valid loop check_response_api_error [OF accepted body errors field msg]
  by (simp add: request_def)

theorem request_api_error_witness:
  "request (always (Response resp_200_errors)) client ''orders'' None None None ''get'' 3 env0 =
     (Inl (TradierApiError (Api_error (JStr ''a | b''))),
      \<lparr>world = 1, trace = [Call (get_request ''orders'' None)]\<rparr>)"
proof -
  have m: "''get'' \<in> set [''get'', ''post'', ''delete'']" by simp
  have st: "status_code resp_200_errors = 200 \<or> status_code resp_200_errors = 201 \<or>
            status_code resp_200_errors = 502"
    by (simp add: resp_200_errors_def)
  have b: "json resp_200_errors =
             Some (JDict [(''errors'', JDict [(''error'', JList [JStr ''a'', JStr ''b''])])])"
    by (simp add: resp_200_errors_def)
  have e: "map_of [(''errors'', JDict [(''error'', JList [JStr ''a'', JStr ''b''])])] ''errors'' =
             Some (JDict [(''error'', JList [JStr ''a'', JStr ''b''])])"
    by simp
  have f: "map_of [(''error'', JList [JStr ''a'', JStr ''b''])] ''error'' =
             Some (JList [JStr ''a'', JStr ''b''])"
    by simp
  have g: "JList [JStr ''a'', JStr ''b''] = JStr ''a | b'' \<or>
           (\<exists>ss. JList [JStr ''a'', JStr ''b''] = JList (map JStr ss) \<and>
                 ''a | b'' = join_with '' | '' ss)"
    by (rule disjI2, rule exI [of _ "[''a'', ''b'']"]) simp
  from request_api_error [OF m retry_loop_200_errors st b e f g] show ?thesis .
qed

text \<open>
  C7. \<^verbatim>\<open>request\<close> never reads \<^verbatim>\<open>self.REQUESTS_HEADERS\<close>: the transport gets the caller's
  \<^verbatim>\<open>headers\<close> argument as it is. Without headers the call goes out with \<^verbatim>\<open>headers=None\<close>,
  and with the extra header \<^verbatim>\<open>X-Extra\<close> it goes out with that header alone; in both cases
  neither \<^verbatim>\<open>Authorization\<close> nor \<^verbatim>\<open>Accept\<close> of the instance is sent.
\<close>

theorem request_forwards_only_caller_headers:
  "request (always (Response resp_200_foo)) client ''orders'' None None None ''get'' 3 env0 =
     (Inr (JDict [(''foo'', JStr ''bar'')]),
      \<lparr>world = 1,
       trace = [Call \<lparr>verb = GET, url = ''https://sandbox.tradier.com/orders'', req_params = [],
                      req_headers = None, req_data = None\<rparr>]\<rparr>) \<and>
   request (always (Response resp_200_foo)) client ''orders'' None (Some [(''X-Extra'', ''1'')])
       None ''get'' 3 env0 =
     (Inr (JDict [(''foo'', JStr ''bar'')]),
      \<lparr>world = 1,
       trace = [Call \<lparr>verb = GET, url = ''https://sandbox.tradier.com/orders'', req_params = [],
                      req_headers = Some [(''X-Extra'', ''1'')], req_data = None\<rparr>]\<rparr>) \<and>
   REQUESTS_HEADERS client =
     [(''Authorization'', ''Bearer secret''), (''Accept'', ''application/json'')]"
  by (simp add: request_def retry_loop.simps try_request_def build_request_def call_def always_def
      env0_def client_def init_def base_url_def TRADIER_SANDBOX_URL_def resp_200_foo_def is_2xx_def
      or_empty_def check_response_def has_api_error_def)




end
